theory Spec2Isabelle
  imports Complex_Main
begin

section \<open>JSON values as the hook sees them\<close>

text \<open>
  \<^verbatim>\<open>type JsonValue = string | number | boolean | null | readonly JsonValue[] | JsonObject\<close>

  A JavaScript number is an IEEE double. The hook never computes with numbers, it only
  compares them with \<^verbatim>\<open>===\<close>, so a number is modelled by what that comparison can
  tell apart: the three non-finite values, the negative zero, and a finite value
  (\<open>Finite 0\<close> is the positive zero).
\<close>

datatype jsnumber = NaN | PosInfinity | NegInfinity | NegZero | Finite real

text \<open>
  Arrays and objects are heap objects: \<^verbatim>\<open>===\<close> compares them by identity, not by
  content. Each array and object node therefore carries the reference of the heap object
  it stands for. An object is the list of its own enumerable properties in enumeration
  order; a JavaScript object has every key once (\<open>json_wf\<close> below).
\<close>

type_synonym ref = nat

datatype json =
    JNull
  | JBool bool
  | JNumber jsnumber
  | JString string
  | JArray ref "json list"
  | JObject ref "(string \<times> json) list"

fun json_wf :: "json \<Rightarrow> bool"
and json_wf_list :: "json list \<Rightarrow> bool"
and json_wf_props :: "(string \<times> json) list \<Rightarrow> bool"
where
  "json_wf JNull = True"
| "json_wf (JBool b) = True"
| "json_wf (JNumber n) = True"
| "json_wf (JString s) = True"
| "json_wf (JArray r a) = json_wf_list a"
| "json_wf (JObject r ps) = (distinct (map fst ps) \<and> json_wf_props ps)"
| "json_wf_list [] = True"
| "json_wf_list (v # vs) = (json_wf v \<and> json_wf_list vs)"
| "json_wf_props [] = True"
| "json_wf_props (p # ps) = (json_wf (snd p) \<and> json_wf_props ps)"

subsection \<open>The operators \<^verbatim>\<open>typeof\<close> and \<^verbatim>\<open>===\<close>\<close>

fun typeof :: "json \<Rightarrow> string" where
  "typeof JNull = ''object''"
| "typeof (JBool b) = ''boolean''"
| "typeof (JNumber n) = ''number''"
| "typeof (JString s) = ''string''"
| "typeof (JArray r a) = ''object''"
| "typeof (JObject r ps) = ''object''"

fun unsigned_zero :: "jsnumber \<Rightarrow> jsnumber" where
  "unsigned_zero NegZero = Finite 0"
| "unsigned_zero n = n"

text \<open>
  \<^verbatim>\<open>x === y\<close> on numbers (ECMA-262, Number::equal): false when either is NaN, true for
  the two zeros whatever their signs, and otherwise true exactly for the same value.
\<close>

definition number_strict_equals :: "jsnumber \<Rightarrow> jsnumber \<Rightarrow> bool" where
  "number_strict_equals x y = (x \<noteq> NaN \<and> y \<noteq> NaN \<and> unsigned_zero x = unsigned_zero y)"

text \<open>
  \<^verbatim>\<open>v1 === v2\<close> on JSON values: values of different types are never equal, strings and
  booleans are compared by content, and arrays and objects by reference.
\<close>

fun strict_equals :: "json \<Rightarrow> json \<Rightarrow> bool" where
  "strict_equals JNull JNull = True"
| "strict_equals (JBool a) (JBool b) = (a = b)"
| "strict_equals (JNumber x) (JNumber y) = number_strict_equals x y"
| "strict_equals (JString s) (JString t) = (s = t)"
| "strict_equals (JArray r a) (JArray r' a') = (r = r')"
| "strict_equals (JObject r ps) (JObject r' ps') = (r = r')"
| "strict_equals v1 v2 = False"

subsection \<open>Property reads\<close>

text \<open>
  \<^verbatim>\<open>o2[key]\<close> is a property read, and a read that finds no own property goes on to the
  prototype. The objects compared are plain objects, whose prototype is
  \<^verbatim>\<open>Object.prototype\<close>: it gives a function for each of its method names and, for the key
  \<^verbatim>\<open>__proto__\<close>, the prototype object itself. Only a key found in neither place reads as
  \<^verbatim>\<open>undefined\<close>.
\<close>

datatype property = Undefined | Value json | BuiltinFunction | ObjectPrototype

definition Object_prototype_methods :: "string list" where
  "Object_prototype_methods =
     [''constructor'', ''hasOwnProperty'', ''isPrototypeOf'', ''propertyIsEnumerable'',
      ''toLocaleString'', ''toString'', ''valueOf'', ''__defineGetter__'',
      ''__defineSetter__'', ''__lookupGetter__'', ''__lookupSetter__'']"

definition getProperty :: "(string \<times> json) list \<Rightarrow> string \<Rightarrow> property" where
  "getProperty ps k =
     (case map_of ps k of
        Some v \<Rightarrow> Value v
      | None \<Rightarrow>
          if k = ''__proto__'' then ObjectPrototype
          else if k \<in> set Object_prototype_methods then BuiltinFunction
          else Undefined)"

section \<open>deepEqual\<close>

text \<open>
  \<^verbatim>\<open>deepEqual(objValue1, Object.prototype)\<close>, the call the loop makes when
  \<^verbatim>\<open>o2[key]\<close> has read the prototype object. The first argument is a JSON value, so
  line 185 is false; \<^verbatim>\<open>Object.prototype\<close> has type \<^verbatim>\<open>"object"\<close>, is not null, is not an
  array and has no enumerable key.
\<close>

definition deepEqual_Object_prototype :: "json \<Rightarrow> bool" where
  "deepEqual_Object_prototype v1 =
     (if typeof v1 = ''object'' then
        (if v1 = JNull then False
         else (case v1 of
                 JArray r a1 \<Rightarrow> False
               | JObject r o1 \<Rightarrow> (if length o1 = 0 then True else False)
               | _ \<Rightarrow> False))
      else False)"

text \<open>
  The function of lines 182 to 238. \<open>every_deepEqual\<close> is
  \<^verbatim>\<open>v1.every((el, i) => deepEqual(el, v2[i]))\<close> and \<open>forin_deepEqual\<close> is the loop
  \<^verbatim>\<open>for (const key in o1)\<close>. A read of \<^verbatim>\<open>v2[i]\<close> past the end is \<^verbatim>\<open>undefined\<close>, which
  \<open>deepEqual\<close> tells apart from every JSON value; so does it a function read from the
  prototype (its type is \<^verbatim>\<open>"function"\<close>).
\<close>

fun deepEqual :: "json \<Rightarrow> json \<Rightarrow> bool"
and every_deepEqual :: "json list \<Rightarrow> json list \<Rightarrow> bool"
and forin_deepEqual :: "(string \<times> json) list \<Rightarrow> (string \<times> json) list \<Rightarrow> bool"
where
  "deepEqual v1 v2 =
     (if strict_equals v1 v2 then True
      else if typeof v1 \<noteq> ''object'' \<or> typeof v2 \<noteq> ''object'' then False
      else if v1 = JNull \<or> v2 = JNull then False
      else (case v1 of
              JArray r1 a1 \<Rightarrow>
                (case v2 of
                   JArray r2 a2 \<Rightarrow>
                     if length a1 \<noteq> length a2 then False else every_deepEqual a1 a2
                 | _ \<Rightarrow> False)
            | JObject r1 o1 \<Rightarrow>
                (case v2 of
                   JObject r2 o2 \<Rightarrow>
                     if length o1 \<noteq> length o2 then False else forin_deepEqual o1 o2
                 | _ \<Rightarrow> False)
            | _ \<Rightarrow> False))"
| "every_deepEqual [] a2 = True"
| "every_deepEqual (el # rest) a2 =
     (case a2 of
        [] \<Rightarrow> False
      | x # xs \<Rightarrow> deepEqual el x \<and> every_deepEqual rest xs)"
| "forin_deepEqual [] o2 = True"
| "forin_deepEqual (p # rest) o2 =
     (case getProperty o2 (fst p) of
        Undefined \<Rightarrow> False
      | BuiltinFunction \<Rightarrow> False
      | ObjectPrototype \<Rightarrow> deepEqual_Object_prototype (snd p) \<and> forin_deepEqual rest o2
      | Value objValue2 \<Rightarrow> deepEqual (snd p) objValue2 \<and> forin_deepEqual rest o2)"

subsection \<open>Structural equality as the specification words it\<close>

text \<open>
  The comparer of the specification (section 4.1), for comparison with \<open>deepEqual\<close>:
  identity first; arrays are equal when their lengths agree and their elements are
  pairwise equal in order; an array and an object are unequal; objects are equal when
  their key counts agree and every key of one exists in the other with an equal value;
  values of different types are never equal. A key exists in an object when the object
  has it as a property of its own.
\<close>

fun structurally_equal :: "json \<Rightarrow> json \<Rightarrow> bool"
and structurally_equal_elements :: "json list \<Rightarrow> json list \<Rightarrow> bool"
and structurally_equal_keys :: "(string \<times> json) list \<Rightarrow> (string \<times> json) list \<Rightarrow> bool"
where
  "structurally_equal a b =
     (if strict_equals a b then True
      else (case a of
              JArray r1 xs \<Rightarrow>
                (case b of
                   JArray r2 ys \<Rightarrow> length xs = length ys \<and> structurally_equal_elements xs ys
                 | _ \<Rightarrow> False)
            | JObject r1 ps \<Rightarrow>
                (case b of
                   JObject r2 qs \<Rightarrow> length ps = length qs \<and> structurally_equal_keys ps qs
                 | _ \<Rightarrow> False)
            | _ \<Rightarrow> False))"
| "structurally_equal_elements [] ys = True"
| "structurally_equal_elements (x # xs) ys =
     (case ys of
        [] \<Rightarrow> False
      | y # ys' \<Rightarrow> structurally_equal x y \<and> structurally_equal_elements xs ys')"
| "structurally_equal_keys [] qs = True"
| "structurally_equal_keys (p # ps) qs =
     (case map_of qs (fst p) of
        None \<Rightarrow> False
      | Some v \<Rightarrow> structurally_equal (snd p) v \<and> structurally_equal_keys ps qs)"

text \<open>The keys that occur anywhere in a value, and whether a value holds a NaN.\<close>

fun has_key :: "string \<Rightarrow> json \<Rightarrow> bool"
and has_key_list :: "string \<Rightarrow> json list \<Rightarrow> bool"
and has_key_props :: "string \<Rightarrow> (string \<times> json) list \<Rightarrow> bool"
where
  "has_key k JNull = False"
| "has_key k (JBool b) = False"
| "has_key k (JNumber n) = False"
| "has_key k (JString s) = False"
| "has_key k (JArray r a) = has_key_list k a"
| "has_key k (JObject r ps) = has_key_props k ps"
| "has_key_list k [] = False"
| "has_key_list k (v # vs) = (has_key k v \<or> has_key_list k vs)"
| "has_key_props k [] = False"
| "has_key_props k (p # ps) = (fst p = k \<or> has_key k (snd p) \<or> has_key_props k ps)"

fun contains_NaN :: "json \<Rightarrow> bool"
and contains_NaN_list :: "json list \<Rightarrow> bool"
and contains_NaN_props :: "(string \<times> json) list \<Rightarrow> bool"
where
  "contains_NaN JNull = False"
| "contains_NaN (JBool b) = False"
| "contains_NaN (JNumber n) = (n = NaN)"
| "contains_NaN (JString s) = False"
| "contains_NaN (JArray r a) = contains_NaN_list a"
| "contains_NaN (JObject r ps) = contains_NaN_props ps"
| "contains_NaN_list [] = False"
| "contains_NaN_list (v # vs) = (contains_NaN v \<or> contains_NaN_list vs)"
| "contains_NaN_props [] = False"
| "contains_NaN_props (p # ps) = (contains_NaN (snd p) \<or> contains_NaN_props ps)"

subsection \<open>The round trip through the codec\<close>

text \<open>
  \<^verbatim>\<open>JSON.parse(JSON.stringify(v))\<close> for a JSON value \<open>v\<close>, as ECMA-262 defines the two
  functions (sections 25.5.1 and 25.5.2): \<open>reparsed v v'\<close> holds when \<open>v'\<close> is a value
  that the round trip of \<open>v\<close> can return. A finite number is written with the digits that
  read back as the same number, the negative zero is written \<^verbatim>\<open>0\<close>, and NaN and the
  infinities are written \<^verbatim>\<open>null\<close>. Arrays and objects come back as new heap objects
  (any references), with the same keys in the same order.
\<close>

fun reparsed :: "json \<Rightarrow> json \<Rightarrow> bool"
and reparsed_list :: "json list \<Rightarrow> json list \<Rightarrow> bool"
and reparsed_props :: "(string \<times> json) list \<Rightarrow> (string \<times> json) list \<Rightarrow> bool"
where
  "reparsed JNull v' = (v' = JNull)"
| "reparsed (JBool b) v' = (v' = JBool b)"
| "reparsed (JNumber n) v' =
     (case n of
        Finite x \<Rightarrow> v' = JNumber (Finite x)
      | NegZero \<Rightarrow> v' = JNumber (Finite 0)
      | _ \<Rightarrow> v' = JNull)"
| "reparsed (JString s) v' = (v' = JString s)"
| "reparsed (JArray r a) v' = (case v' of JArray r' a' \<Rightarrow> reparsed_list a a' | _ \<Rightarrow> False)"
| "reparsed (JObject r ps) v' = (case v' of JObject r' ps' \<Rightarrow> reparsed_props ps ps' | _ \<Rightarrow> False)"
| "reparsed_list [] a' = (a' = [])"
| "reparsed_list (v # vs) a' =
     (case a' of [] \<Rightarrow> False | v' # vs' \<Rightarrow> reparsed v v' \<and> reparsed_list vs vs')"
| "reparsed_props [] ps' = (ps' = [])"
| "reparsed_props (p # ps) ps' =
     (case ps' of
        [] \<Rightarrow> False
      | p' # rest \<Rightarrow> fst p' = fst p \<and> reparsed (snd p) (snd p') \<and> reparsed_props ps rest)"

text \<open>
  The representable values: every object has each key once, and every number is finite
  (JSON text has no NaN and no infinity).
\<close>

fun representable :: "json \<Rightarrow> bool"
and representable_list :: "json list \<Rightarrow> bool"
and representable_props :: "(string \<times> json) list \<Rightarrow> bool"
where
  "representable JNull = True"
| "representable (JBool b) = True"
| "representable (JNumber n) = (n \<noteq> NaN \<and> n \<noteq> PosInfinity \<and> n \<noteq> NegInfinity)"
| "representable (JString s) = True"
| "representable (JArray r a) = representable_list a"
| "representable (JObject r ps) = (distinct (map fst ps) \<and> representable_props ps)"
| "representable_list [] = True"
| "representable_list (v # vs) = (representable v \<and> representable_list vs)"
| "representable_props [] = True"
| "representable_props (p # ps) = (representable (snd p) \<and> representable_props ps)"

text \<open>
  \<open>separate_copy v v'\<close>: the value \<open>v'\<close> has the content of \<open>v\<close> and was built on its
  own, so that no array or object of \<open>v'\<close> is the heap object that \<open>v\<close> has in the same
  place. Two results of \<^verbatim>\<open>JSON.parse\<close> are related so when they have the same content.
\<close>

fun separate_copy :: "json \<Rightarrow> json \<Rightarrow> bool"
and separate_copy_list :: "json list \<Rightarrow> json list \<Rightarrow> bool"
and separate_copy_props :: "(string \<times> json) list \<Rightarrow> (string \<times> json) list \<Rightarrow> bool"
where
  "separate_copy JNull v' = (v' = JNull)"
| "separate_copy (JBool b) v' = (v' = JBool b)"
| "separate_copy (JNumber n) v' = (v' = JNumber n)"
| "separate_copy (JString s) v' = (v' = JString s)"
| "separate_copy (JArray r a) v' =
     (case v' of JArray r' a' \<Rightarrow> r' \<noteq> r \<and> separate_copy_list a a' | _ \<Rightarrow> False)"
| "separate_copy (JObject r ps) v' =
     (case v' of JObject r' ps' \<Rightarrow> r' \<noteq> r \<and> separate_copy_props ps ps' | _ \<Rightarrow> False)"
| "separate_copy_list [] a' = (a' = [])"
| "separate_copy_list (v # vs) a' =
     (case a' of [] \<Rightarrow> False | v' # vs' \<Rightarrow> separate_copy v v' \<and> separate_copy_list vs vs')"
| "separate_copy_props [] ps' = (ps' = [])"
| "separate_copy_props (p # ps) ps' =
     (case ps' of
        [] \<Rightarrow> False
      | p' # rest \<Rightarrow>
          fst p' = fst p \<and> separate_copy (snd p) (snd p') \<and> separate_copy_props ps rest)"

section \<open>The platform: JSON codec, storage, error callback\<close>

datatype js_error = SyntaxError | TypeError | QuotaExceededError | Thrown string

text \<open>
  What the hook takes from its surroundings. \<^verbatim>\<open>JSON.parse\<close> and \<^verbatim>\<open>JSON.stringify\<close> are
  functions of the platform: each returns a value or throws. The \<^verbatim>\<open>Storage\<close> object has an
  identity (a storage event names the storage it comes from), and its \<^verbatim>\<open>setItem\<close> and
  \<^verbatim>\<open>removeItem\<close> may throw, depending on the entries it holds and on the arguments;
  \<^verbatim>\<open>getItem\<close> does not throw.
\<close>

record platform =
  JSON_parse :: "string \<Rightarrow> js_error + json"
  JSON_stringify :: "json \<Rightarrow> js_error + string"
  localStorage :: ref
  setItem_throws :: "(string \<rightharpoonup> string) \<Rightarrow> string \<Rightarrow> string \<Rightarrow> js_error option"
  removeItem_throws :: "(string \<rightharpoonup> string) \<Rightarrow> string \<Rightarrow> js_error option"

datatype store_op = SetItem string string | RemoveItem string

text \<open>
  The state the hook acts on: the entries of the storage, the writes the storage has
  carried out (oldest first), and the errors \<^verbatim>\<open>onError\<close> has been called with (oldest
  first). Calling \<^verbatim>\<open>onError\<close> is recorded, it does not throw.
\<close>

record world =
  entries :: "string \<rightharpoonup> string"
  writes :: "store_op list"
  reported :: "js_error list"

definition stableOnError :: "js_error \<Rightarrow> world \<Rightarrow> world" where
  "stableOnError err w = w\<lparr>reported := reported w @ [err]\<rparr>"

definition getItem :: "world \<Rightarrow> string \<Rightarrow> string option" where
  "getItem w k = entries w k"

definition setItem :: "platform \<Rightarrow> string \<Rightarrow> string \<Rightarrow> world \<Rightarrow> js_error + world" where
  "setItem P k s w =
     (case setItem_throws P (entries w) k s of
        Some err \<Rightarrow> Inl err
      | None \<Rightarrow> Inr (w\<lparr>entries := (entries w)(k \<mapsto> s), writes := writes w @ [SetItem k s]\<rparr>))"

definition removeItem :: "platform \<Rightarrow> string \<Rightarrow> world \<Rightarrow> js_error + world" where
  "removeItem P k w =
     (case removeItem_throws P (entries w) k of
        Some err \<Rightarrow> Inl err
      | None \<Rightarrow> Inr (w\<lparr>entries := (entries w)(k := None), writes := writes w @ [RemoveItem k]\<rparr>))"

section \<open>useLocalStorage\<close>

text \<open>
  The options of one call of the hook. \<^verbatim>\<open>removeNullValues\<close> and
  \<^verbatim>\<open>syncFallbackOnMount\<close> are optional, with the defaults of lines 60 and 61.
\<close>

record options =
  key :: string
  fallbackValue :: "json option"
  removeNullValues_option :: "bool option"
  syncFallbackOnMount_option :: "bool option"

definition removeNullValues :: "options \<Rightarrow> bool" where
  "removeNullValues opts = (case removeNullValues_option opts of None \<Rightarrow> True | Some b \<Rightarrow> b)"

definition syncFallbackOnMount :: "options \<Rightarrow> bool" where
  "syncFallbackOnMount opts = (case syncFallbackOnMount_option opts of None \<Rightarrow> False | Some b \<Rightarrow> b)"

text \<open>
  A storage event: its fields \<^verbatim>\<open>storageArea\<close>, \<^verbatim>\<open>key\<close>, \<^verbatim>\<open>oldValue\<close> and
  \<^verbatim>\<open>newValue\<close>, each of which may be null.
\<close>

record StorageEvent =
  event_storageArea :: "ref option"
  event_key :: "string option"
  event_oldValue :: "string option"
  event_newValue :: "string option"

text \<open>
  \<open>onStorageUpdate\<close> (lines 74 to 101) returns whether it called \<^verbatim>\<open>notifyReact\<close>, and
  the state after it.
\<close>

fun onStorageUpdate :: "platform \<Rightarrow> options \<Rightarrow> StorageEvent \<Rightarrow> world \<Rightarrow> bool \<times> world" where
  "onStorageUpdate P opts event w =
     (if event_storageArea event \<noteq> Some (localStorage P) \<or> event_key event \<noteq> Some (key opts)
      then (False, w)
      else if event_oldValue event = None \<or> event_newValue event = None then
        (if event_oldValue event \<noteq> event_newValue event then (True, w) else (False, w))
      else (case JSON_parse P (the (event_oldValue event)) of
              Inl err \<Rightarrow> (False, stableOnError err w)
            | Inr oldParsed \<Rightarrow>
                (case JSON_parse P (the (event_newValue event)) of
                   Inl err \<Rightarrow> (False, stableOnError err w)
                 | Inr newParsed \<Rightarrow>
                     (if \<not> deepEqual oldParsed newParsed then (True, w) else (False, w)))))"

text \<open>\<open>readFromLocalStorage\<close> (lines 109 to 122) returns the value read and the state after it.\<close>

definition readFromLocalStorage :: "platform \<Rightarrow> options \<Rightarrow> world \<Rightarrow> json \<times> world" where
  "readFromLocalStorage P opts w =
     (case getItem w (key opts) of
        None \<Rightarrow> (JNull, w)
      | Some payload \<Rightarrow>
          (case JSON_parse P payload of
             Inr parsed \<Rightarrow> (parsed, w)
           | Inl err \<Rightarrow> (JNull, stableOnError err w)))"

text \<open>Lines 129 to 132.\<close>

definition hookValue :: "options \<Rightarrow> json \<Rightarrow> json" where
  "hookValue opts storageValue =
     (if storageValue = JNull \<and> fallbackValue opts \<noteq> None
      then the (fallbackValue opts)
      else storageValue)"

text \<open>
  The payload of the setter: a value, or a function of the current value, which returns a
  value or throws.
\<close>

datatype payload = Literal json | Updater "json \<Rightarrow> js_error + json"

text \<open>
  \<open>setLocalStorageValue\<close> (lines 134 to 160), with the \<^verbatim>\<open>hookValue\<close> of the render it
  closes over. \<open>Inl err\<close> is the exception \<open>err\<close> thrown to the caller.
\<close>

definition setLocalStorageValue ::
  "platform \<Rightarrow> options \<Rightarrow> json \<Rightarrow> payload \<Rightarrow> world \<Rightarrow> js_error + world" where
  "setLocalStorageValue P opts hv payload w =
     (case (case payload of Updater f \<Rightarrow> f hv | Literal v \<Rightarrow> Inr v) of
        Inl err \<Rightarrow> Inr (stableOnError err w)
      | Inr newValue \<Rightarrow>
          if newValue = JNull \<and> removeNullValues opts then removeItem P (key opts) w
          else (case JSON_stringify P newValue of
                  Inl err \<Rightarrow> Inr (stableOnError err w)
                | Inr string \<Rightarrow>
                    (case setItem P (key opts) string w of
                       Inl err \<Rightarrow> Inr (stableOnError err w)
                     | Inr w' \<Rightarrow> Inr w')))"

text \<open>
  The effect of lines 166 to 177, with the \<^verbatim>\<open>storageValue\<close> of the render it closes over.
  Neither call is inside a \<^verbatim>\<open>try\<close>.
\<close>

definition mountEffect :: "platform \<Rightarrow> options \<Rightarrow> json \<Rightarrow> world \<Rightarrow> js_error + world" where
  "mountEffect P opts storageValue w =
     (if syncFallbackOnMount opts \<and> storageValue = JNull \<and> fallbackValue opts \<noteq> None
      then (case JSON_stringify P (the (fallbackValue opts)) of
              Inl err \<Rightarrow> Inl err
            | Inr string \<Rightarrow> setItem P (key opts) string w)
      else Inr w)"

text \<open>
  One evaluation of the hook's body: \<^verbatim>\<open>useSyncExternalStore\<close> reads the snapshot with
  \<open>readFromLocalStorage\<close>, and the body returns \<^verbatim>\<open>hookValue\<close> (with the setter, which
  is \<open>setLocalStorageValue\<close> at that \<^verbatim>\<open>hookValue\<close>).
\<close>

definition useLocalStorage :: "platform \<Rightarrow> options \<Rightarrow> world \<Rightarrow> json \<times> world" where
  "useLocalStorage P opts w =
     (case readFromLocalStorage P opts w of
        (storageValue, w') \<Rightarrow> (hookValue opts storageValue, w'))"

text \<open>
  The setter that this evaluation returns (line 179). It is \<open>setLocalStorageValue\<close> with
  the \<^verbatim>\<open>hookValue\<close> of the evaluation: \<^verbatim>\<open>useEffectEvent\<close> keeps the function of the latest
  evaluation, and that function does not read the storage again. \<open>w0\<close> is the state at the
  latest evaluation, and the last argument is the state at the call.
\<close>

definition setStorageValue ::
  "platform \<Rightarrow> options \<Rightarrow> world \<Rightarrow> payload \<Rightarrow> world \<Rightarrow> js_error + world" where
  "setStorageValue P opts w0 payload w =
     setLocalStorageValue P opts (fst (useLocalStorage P opts w0)) payload w"

text \<open>
  The life of one component. React runs an effect with the dependency list \<^verbatim>\<open>[]\<close> once,
  after the first evaluation of the body, and on no later evaluation: \<open>mount\<close> is the
  first evaluation followed by the effect, and \<open>rerenders\<close> is any number of later
  evaluations, each with the options of its own call.
\<close>

definition mount :: "platform \<Rightarrow> options \<Rightarrow> world \<Rightarrow> js_error + json \<times> world" where
  "mount P opts w =
     (case readFromLocalStorage P opts w of
        (storageValue, w') \<Rightarrow>
          (case mountEffect P opts storageValue w' of
             Inl err \<Rightarrow> Inl err
           | Inr w'' \<Rightarrow> Inr (hookValue opts storageValue, w'')))"

fun rerenders :: "platform \<Rightarrow> options list \<Rightarrow> world \<Rightarrow> world" where
  "rerenders P [] w = w"
| "rerenders P (opts # rest) w = rerenders P rest (snd (useLocalStorage P opts w))"

section \<open>A platform for the examples\<close>

text \<open>
  An excerpt of \<^verbatim>\<open>JSON.parse\<close> and \<^verbatim>\<open>JSON.stringify\<close>: the texts and values the examples
  use, each with what the platform's function returns for it. \<open>demo_parse\<close> throws on
  every other text, among them the malformed \<^verbatim>\<open>{bad json\<close>; \<open>demo_stringify\<close> throws on
  every other value. The storage of \<open>demo_platform\<close> never throws.
\<close>

definition demo_parse :: "string \<Rightarrow> js_error + json" where
  \<open>demo_parse s =
     (if s = ''null'' then Inr JNull
      else if s = ''5'' then Inr (JNumber (Finite 5))
      else if s = ''6'' then Inr (JNumber (Finite 6))
      else if s = ''7'' then Inr (JNumber (Finite 7))
      else if s = ''42'' then Inr (JNumber (Finite 42))
      else if s = ''{"n":0}'' then Inr (JObject 1 [(''n'', JNumber (Finite 0))])
      else if s = ''{"a":1,"b":2}'' then
        Inr (JObject 2 [(''a'', JNumber (Finite 1)), (''b'', JNumber (Finite 2))])
      else if s = ''{"b":2,"a":1}'' then
        Inr (JObject 3 [(''b'', JNumber (Finite 2)), (''a'', JNumber (Finite 1))])
      else if s = ''{"a":1}'' then Inr (JObject 4 [(''a'', JNumber (Finite 1))])
      else if s = ''{"__proto__":{}}'' then Inr (JObject 5 [(''__proto__'', JObject 6 [])])
      else Inl SyntaxError)\<close>

definition demo_stringify :: "json \<Rightarrow> js_error + string" where
  \<open>demo_stringify v =
     (if v = JNull then Inr ''null''
      else if v = JNumber (Finite 5) then Inr ''5''
      else if v = JNumber (Finite 6) then Inr ''6''
      else if v = JNumber (Finite 7) then Inr ''7''
      else if v = JNumber (Finite 42) then Inr ''42''
      else if v = JObject 0 [(''n'', JNumber (Finite 0))] then Inr ''{"n":0}''
      else Inl TypeError)\<close>

definition demo_platform :: platform where
  "demo_platform =
     \<lparr>JSON_parse = demo_parse, JSON_stringify = demo_stringify, localStorage = 0,
      setItem_throws = (\<lambda>m k s. None), removeItem_throws = (\<lambda>m k. None)\<rparr>"

definition demo_options :: options where
  "demo_options =
     \<lparr>key = ''target'', fallbackValue = None, removeNullValues_option = None,
      syncFallbackOnMount_option = None\<rparr>"

definition empty_world :: world where
  "empty_world = \<lparr>entries = Map.empty, writes = [], reported = []\<rparr>"

text \<open>
  The updater \<^verbatim>\<open>cur => cur + 1\<close> on the finite numbers (small integers add exactly); the
  examples apply it to no other value.
\<close>

definition increment :: "json \<Rightarrow> js_error + json" where
  "increment cur = (case cur of JNumber (Finite x) \<Rightarrow> Inr (JNumber (Finite (x + 1))) | _ \<Rightarrow> Inr cur)"

section \<open>Properties of deepEqual\<close>

declare deepEqual.simps(1) [simp del]
declare structurally_equal.simps(1) [simp del]

lemma deepEqual_JNumber: "deepEqual (JNumber x) (JNumber y) = number_strict_equals x y"
  by (simp add: deepEqual.simps(1))

lemma deepEqual_same_value: "deepEqual v v = (v \<noteq> JNumber NaN)"
  by (cases v) (auto simp: deepEqual.simps(1) number_strict_equals_def)

lemma map_of_distinct_member:
  "distinct (map fst ps) \<Longrightarrow> p \<in> set ps \<Longrightarrow> map_of ps (fst p) = Some (snd p)"
  by (cases p) simp

text \<open>
  Whatever the round trip through the codec returns for a representable value is
  \<open>deepEqual\<close> to the value. The loop over the properties of the copy looks each key up
  in the whole original object, so the statement for property lists is about any object
  \<open>qs\<close> that holds the original properties.
\<close>

lemma reparsed_deepEqual:
  "representable v \<longrightarrow> reparsed v v' \<longrightarrow> deepEqual v' v"
  "representable_list a \<longrightarrow> reparsed_list a a' \<longrightarrow>
     length a' = length a \<and> every_deepEqual a' a"
  "representable_props ps \<longrightarrow> reparsed_props ps ps' \<longrightarrow>
     length ps' = length ps \<and>
     (\<forall>qs. (\<forall>p \<in> set ps. map_of qs (fst p) = Some (snd p)) \<longrightarrow> forin_deepEqual ps' qs)"
proof (induction v v' and a a' and ps ps' rule: reparsed_reparsed_list_reparsed_props.induct)
  case (1 v')
  then show ?case by (simp add: deepEqual.simps(1))
next
  case (2 b v')
  then show ?case by (simp add: deepEqual.simps(1))
next
  case (3 n v')
  then show ?case by (cases n) (auto simp: deepEqual.simps(1) number_strict_equals_def)
next
  case (4 s v')
  then show ?case by (simp add: deepEqual.simps(1))
next
  case (5 r a v')
  then show ?case by (cases v') (auto simp: deepEqual.simps(1))
next
  case (6 r ps v')
  show ?case
  proof (cases v')
    case (JObject r' ps')
    show ?thesis
    proof (intro impI)
      assume rep: "representable (JObject r ps)" and rp: "reparsed (JObject r ps) v'"
      from rep have d: "distinct (map fst ps)" and rps: "representable_props ps" by simp_all
      from rp JObject have rp': "reparsed_props ps ps'" by simp
      from "6.IH"[OF JObject] rps rp' have len: "length ps' = length ps"
        and every: "\<forall>qs. (\<forall>p \<in> set ps. map_of qs (fst p) = Some (snd p)) \<longrightarrow> forin_deepEqual ps' qs"
        by simp_all
      from d have "\<forall>p \<in> set ps. map_of ps (fst p) = Some (snd p)"
        by (simp add: map_of_distinct_member)
      with every have "forin_deepEqual ps' ps" by blast
      with len JObject show "deepEqual v' (JObject r ps)" by (simp add: deepEqual.simps(1))
    qed
  qed simp_all
next
  case (7 a')
  then show ?case by simp
next
  case (8 v vs a')
  then show ?case by (cases a') auto
next
  case (9 ps')
  then show ?case by simp
next
  case (10 p ps ps')
  then show ?case by (cases ps') (auto simp: getProperty_def)
qed

text \<open>
  \<open>deepEqual\<close> against the comparer of the specification. Values that the comparer holds
  equal are \<open>deepEqual\<close>; and the two agree on every pair whose first value has no key
  \<^verbatim>\<open>__proto__\<close>, the one key that a property read finds an object for in the prototype.
\<close>

lemma structurally_equal_deepEqual:
  "structurally_equal v1 v2 \<longrightarrow> deepEqual v1 v2"
  "structurally_equal_elements a1 a2 \<longrightarrow> every_deepEqual a1 a2"
  "structurally_equal_keys o1 o2 \<longrightarrow> forin_deepEqual o1 o2"
proof (induction v1 v2 and a1 a2 and o1 o2
    rule: structurally_equal_structurally_equal_elements_structurally_equal_keys.induct)
  case (1 a b)
  show ?case
  proof (cases "strict_equals a b")
    case True
    then show ?thesis by (simp add: deepEqual.simps(1) structurally_equal.simps(1))
  next
    case False
    with 1 show ?thesis
      by (cases a; cases b) (auto simp: deepEqual.simps(1) structurally_equal.simps(1))
  qed
next
  case (2 ys)
  then show ?case by simp
next
  case (3 x xs ys)
  then show ?case by (cases ys) auto
next
  case (4 qs)
  then show ?case by simp
next
  case (5 p ps qs)
  then show ?case by (cases "map_of qs (fst p)") (auto simp: getProperty_def)
qed

lemma deepEqual_eq_structurally_equal:
  "\<not> has_key ''__proto__'' v1 \<longrightarrow> deepEqual v1 v2 = structurally_equal v1 v2"
  "\<not> has_key_list ''__proto__'' a1 \<longrightarrow>
     every_deepEqual a1 a2 = structurally_equal_elements a1 a2"
  "\<not> has_key_props ''__proto__'' o1 \<longrightarrow>
     forin_deepEqual o1 o2 = structurally_equal_keys o1 o2"
proof (induction v1 v2 and a1 a2 and o1 o2
    rule: structurally_equal_structurally_equal_elements_structurally_equal_keys.induct)
  case (1 a b)
  show ?case
  proof (cases "strict_equals a b")
    case True
    then show ?thesis by (simp add: deepEqual.simps(1) structurally_equal.simps(1))
  next
    case False
    with 1 show ?thesis
      by (cases a; cases b) (auto simp: deepEqual.simps(1) structurally_equal.simps(1))
  qed
next
  case (2 ys)
  then show ?case by simp
next
  case (3 x xs ys)
  then show ?case by (cases ys) auto
next
  case (4 qs)
  then show ?case by simp
next
  case (5 p ps qs)
  then show ?case by (cases "map_of qs (fst p)") (auto simp: getProperty_def)
qed

lemma separate_copy_props_keys:
  "separate_copy_props ps ps' \<Longrightarrow> map fst ps' = map fst ps"
  by (induction ps arbitrary: ps') (auto split: list.splits)

text \<open>
  A value against a copy of it that was built on its own: the identity check of line 185
  fails at every array and object, the comparison goes through the whole value, and it
  succeeds exactly when no number met on the way is NaN.
\<close>

lemma separate_copy_deepEqual:
  "json_wf v \<longrightarrow> separate_copy v v' \<longrightarrow> deepEqual v v' = (\<not> contains_NaN v)"
  "json_wf_list a \<longrightarrow> separate_copy_list a a' \<longrightarrow>
     length a = length a' \<and> every_deepEqual a a' = (\<not> contains_NaN_list a)"
  "json_wf_props ps \<longrightarrow> separate_copy_props ps ps' \<longrightarrow>
     length ps = length ps' \<and>
     (\<forall>qs. (\<forall>p' \<in> set ps'. map_of qs (fst p') = Some (snd p')) \<longrightarrow>
        forin_deepEqual ps qs = (\<not> contains_NaN_props ps))"
proof (induction v v' and a a' and ps ps'
    rule: separate_copy_separate_copy_list_separate_copy_props.induct)
  case (1 v')
  then show ?case by (simp add: deepEqual.simps(1))
next
  case (2 b v')
  then show ?case by (simp add: deepEqual.simps(1))
next
  case (3 n v')
  then show ?case by (auto simp: deepEqual.simps(1) number_strict_equals_def)
next
  case (4 s v')
  then show ?case by (simp add: deepEqual.simps(1))
next
  case (5 r a v')
  then show ?case by (cases v') (auto simp: deepEqual.simps(1))
next
  case (6 r ps v')
  show ?case
  proof (cases v')
    case (JObject r' ps')
    show ?thesis
    proof (intro impI)
      assume wf: "json_wf (JObject r ps)" and cp: "separate_copy (JObject r ps) v'"
      from wf have d: "distinct (map fst ps)" and wfp: "json_wf_props ps" by simp_all
      from cp JObject have ne: "r' \<noteq> r" and cp': "separate_copy_props ps ps'" by simp_all
      from "6.IH"[OF JObject] wfp cp' have len: "length ps = length ps'"
        and every: "\<forall>qs. (\<forall>p' \<in> set ps'. map_of qs (fst p') = Some (snd p')) \<longrightarrow>
          forin_deepEqual ps qs = (\<not> contains_NaN_props ps)"
        by simp_all
      from d separate_copy_props_keys [OF cp'] have "distinct (map fst ps')" by simp
      then have "\<forall>p' \<in> set ps'. map_of ps' (fst p') = Some (snd p')"
        by (simp add: map_of_distinct_member)
      with every have "forin_deepEqual ps ps' = (\<not> contains_NaN_props ps)" by blast
      with len ne JObject show "deepEqual (JObject r ps) v' = (\<not> contains_NaN (JObject r ps))"
        by (auto simp: deepEqual.simps(1))
    qed
  qed simp_all
next
  case (7 a')
  then show ?case by simp
next
  case (8 v vs a')
  then show ?case by (cases a') auto
next
  case (9 ps')
  then show ?case by simp
next
  case (10 p ps ps')
  then show ?case by (cases ps') (auto simp: getProperty_def)
qed

text \<open>
  A property read that finds the prototype makes \<open>deepEqual\<close> hold two different objects
  equal in one order of the arguments and unequal in the other.
\<close>

lemma deepEqual_not_symmetric:
  "deepEqual (JObject 5 [(''__proto__'', JObject 6 [])]) (JObject 4 [(''a'', JNumber (Finite 1))])
   \<and> \<not> deepEqual (JObject 4 [(''a'', JNumber (Finite 1))])
         (JObject 5 [(''__proto__'', JObject 6 [])])"
  by (simp add: deepEqual.simps(1) getProperty_def deepEqual_Object_prototype_def
        Object_prototype_methods_def)

text \<open>
  Claim C10, as amended. \<open>deepEqual\<close> compares numbers with strict equality: on two
  numbers it is \<^verbatim>\<open>===\<close>, so it holds of the two zeros and fails of NaN and NaN. A value
  compared with itself is \<open>deepEqual\<close> unless it is the number NaN; this includes the
  arrays and objects that contain NaN, which are equal to themselves by identity (line
  185). A value compared with a copy built on its own is \<open>deepEqual\<close> exactly when it
  contains no NaN.
\<close>

theorem deepEqual_numbers_strict:
  "deepEqual (JNumber x) (JNumber y) = number_strict_equals x y
   \<and> deepEqual (JNumber (Finite 0)) (JNumber NegZero)
   \<and> \<not> deepEqual (JNumber NaN) (JNumber NaN)
   \<and> deepEqual v v = (v \<noteq> JNumber NaN)
   \<and> (json_wf v \<longrightarrow> separate_copy v v' \<longrightarrow> deepEqual v v' = (\<not> contains_NaN v))"
  using separate_copy_deepEqual(1) [of v v']
  by (simp add: deepEqual_JNumber deepEqual_same_value number_strict_equals_def)

text \<open>
  An array that holds NaN against a copy of it, and an array that holds the number 1
  against a copy of it.
\<close>

theorem deepEqual_numbers_strict_witness:
  "\<not> deepEqual (JArray 0 [JNumber NaN]) (JArray 1 [JNumber NaN])
   \<and> deepEqual (JArray 0 [JNumber (Finite 1)]) (JArray 1 [JNumber (Finite 1)])"
proof -
  have a: "\<not> deepEqual (JArray 0 [JNumber NaN]) (JArray 1 [JNumber NaN])"
    using deepEqual_numbers_strict [of _ _ "JArray 0 [JNumber NaN]" "JArray 1 [JNumber NaN]"]
    by simp
  have b: "deepEqual (JArray 0 [JNumber (Finite 1)]) (JArray 1 [JNumber (Finite 1)])"
    using deepEqual_numbers_strict
      [of _ _ "JArray 0 [JNumber (Finite 1)]" "JArray 1 [JNumber (Finite 1)]"]
    by simp
  from a b show ?thesis by simp
qed

text \<open>
  Against claim C10 as stated: an array that contains NaN is \<open>deepEqual\<close> to itself.
\<close>

theorem deepEqual_reflexive_on_NaN_array:
  "contains_NaN (JArray 0 [JNumber NaN])
   \<and> deepEqual (JArray 0 [JNumber NaN]) (JArray 0 [JNumber NaN])"
  by (simp add: deepEqual.simps(1))

section \<open>The codec round trip\<close>

text \<open>
  Claim C5. For every representable value \<open>v\<close>, the value \<open>v'\<close> that decoding the encoded
  text of \<open>v\<close> yields is \<open>deepEqual\<close> to \<open>v\<close>. The codec is the platform's; \<open>reparsed v v'\<close>
  says that it has worked on \<open>v\<close> as ECMA-262 defines it.
\<close>

theorem roundtrip_deepEqual:
  "representable v \<Longrightarrow> JSON_stringify P v = Inr s \<Longrightarrow> JSON_parse P s = Inr v' \<Longrightarrow>
   reparsed v v' \<Longrightarrow> deepEqual v' v"
  using reparsed_deepEqual(1) by blast

theorem roundtrip_deepEqual_witness:
  \<open>representable (JObject 0 [(''n'', JNumber (Finite 0))])
   \<and> JSON_stringify demo_platform (JObject 0 [(''n'', JNumber (Finite 0))]) = Inr ''{"n":0}''
   \<and> JSON_parse demo_platform ''{"n":0}'' = Inr (JObject 1 [(''n'', JNumber (Finite 0))])
   \<and> reparsed (JObject 0 [(''n'', JNumber (Finite 0))]) (JObject 1 [(''n'', JNumber (Finite 0))])
   \<and> deepEqual (JObject 1 [(''n'', JNumber (Finite 0))]) (JObject 0 [(''n'', JNumber (Finite 0))])\<close>
proof -
  have r: "representable (JObject 0 [(''n'', JNumber (Finite 0))])" by simp
  have e: \<open>JSON_stringify demo_platform (JObject 0 [(''n'', JNumber (Finite 0))])
             = Inr ''{"n":0}''\<close>
    by (simp add: demo_platform_def demo_stringify_def)
  have d: \<open>JSON_parse demo_platform ''{"n":0}'' = Inr (JObject 1 [(''n'', JNumber (Finite 0))])\<close>
    by (simp add: demo_platform_def demo_parse_def)
  have c: "reparsed (JObject 0 [(''n'', JNumber (Finite 0))])
             (JObject 1 [(''n'', JNumber (Finite 0))])"
    by simp
  from roundtrip_deepEqual [OF r e d c] r e d c show ?thesis by simp
qed

text \<open>
  Why the claim is about representable values: NaN is encoded as \<^verbatim>\<open>null\<close>, and null is
  not \<open>deepEqual\<close> to NaN.
\<close>

lemma NaN_roundtrip_not_deepEqual:
  "reparsed (JNumber NaN) JNull \<and> \<not> deepEqual JNull (JNumber NaN)"
  by (simp add: deepEqual.simps(1))

text \<open>
  The round trip through the storage: a representable value other than null that the
  setter has stored is read back as a value that is \<open>deepEqual\<close> to it.
\<close>

lemma write_then_read_deepEqual:
  "representable v \<Longrightarrow> v \<noteq> JNull \<Longrightarrow> JSON_stringify P v = Inr s \<Longrightarrow>
   JSON_parse P s = Inr v' \<Longrightarrow> reparsed v v' \<Longrightarrow>
   setItem_throws P (entries w) (key opts) s = None \<Longrightarrow>
   \<exists>w'. setLocalStorageValue P opts hv (Literal v) w = Inr w' \<and>
        readFromLocalStorage P opts w' = (v', w') \<and> deepEqual v' v"
  using reparsed_deepEqual(1) [of v v']
  by (simp add: setLocalStorageValue_def setItem_def readFromLocalStorage_def getItem_def)

section \<open>The filter of storage events\<close>

text \<open>
  What \<open>onStorageUpdate\<close> does with an event for the watched key and the bound storage
  whose two texts are present: when both decode, it calls \<^verbatim>\<open>notifyReact\<close> exactly when
  the decoded values are not \<open>deepEqual\<close>; when one does not decode, it reports the error
  and does not call \<^verbatim>\<open>notifyReact\<close>. An event for another key is ignored.
\<close>

lemma onStorageUpdate_forwards_iff_not_deepEqual:
  "event_storageArea event = Some (localStorage P) \<Longrightarrow> event_key event = Some (key opts) \<Longrightarrow>
   event_oldValue event = Some old \<Longrightarrow> event_newValue event = Some new \<Longrightarrow>
   JSON_parse P old = Inr oldParsed \<Longrightarrow> JSON_parse P new = Inr newParsed \<Longrightarrow>
   onStorageUpdate P opts event w = (\<not> deepEqual oldParsed newParsed, w)"
  by simp

lemma onStorageUpdate_decode_failure:
  "event_storageArea event = Some (localStorage P) \<Longrightarrow> event_key event = Some (key opts) \<Longrightarrow>
   event_oldValue event = Some old \<Longrightarrow> event_newValue event = Some new \<Longrightarrow>
   JSON_parse P old = Inl err \<Longrightarrow>
   onStorageUpdate P opts event w = (False, stableOnError err w)"
  by simp

lemma onStorageUpdate_other_key:
  "event_key event \<noteq> Some (key opts) \<Longrightarrow> onStorageUpdate P opts event w = (False, w)"
  by simp

text \<open>
  Against the comparer of the specification: a change between two values that the
  comparer holds equal is never forwarded, and when the old value has no key
  \<^verbatim>\<open>__proto__\<close> a change is forwarded exactly when the comparer holds the two values
  unequal.
\<close>

lemma onStorageUpdate_equal_values_suppressed:
  "event_storageArea event = Some (localStorage P) \<Longrightarrow> event_key event = Some (key opts) \<Longrightarrow>
   event_oldValue event = Some old \<Longrightarrow> event_newValue event = Some new \<Longrightarrow>
   JSON_parse P old = Inr oldParsed \<Longrightarrow> JSON_parse P new = Inr newParsed \<Longrightarrow>
   structurally_equal oldParsed newParsed \<Longrightarrow>
   onStorageUpdate P opts event w = (False, w)"
  using structurally_equal_deepEqual(1) [of oldParsed newParsed] by simp

lemma onStorageUpdate_forwards_iff_structurally_unequal:
  "event_storageArea event = Some (localStorage P) \<Longrightarrow> event_key event = Some (key opts) \<Longrightarrow>
   event_oldValue event = Some old \<Longrightarrow> event_newValue event = Some new \<Longrightarrow>
   JSON_parse P old = Inr oldParsed \<Longrightarrow> JSON_parse P new = Inr newParsed \<Longrightarrow>
   \<not> has_key ''__proto__'' oldParsed \<Longrightarrow>
   onStorageUpdate P opts event w = (\<not> structurally_equal oldParsed newParsed, w)"
  using deepEqual_eq_structurally_equal(1) [of oldParsed newParsed] by simp

text \<open>The example of the specification: the same object written with its keys in another order.\<close>

lemma onStorageUpdate_reordered_keys_suppressed:
  \<open>onStorageUpdate demo_platform demo_options
     \<lparr>event_storageArea = Some 0, event_key = Some ''target'',
      event_oldValue = Some ''{"a":1,"b":2}'', event_newValue = Some ''{"b":2,"a":1}''\<rparr>
     empty_world = (False, empty_world)\<close>
  by (simp add: demo_platform_def demo_options_def demo_parse_def deepEqual.simps(1)
        getProperty_def number_strict_equals_def)

text \<open>
  Claim C2 says that such an event is forwarded if and only if the two decoded values
  are structurally unequal. The code does not do so on the event that replaces the text
  \<^verbatim>\<open>{"__proto__":{}}\<close> by the text \<^verbatim>\<open>{"a":1}\<close>: the decoded values are structurally
  unequal (the key of one is not a key of the other), \<open>deepEqual\<close> holds them equal,
  because line 226 reads \<^verbatim>\<open>Object.prototype\<close> for the key that the new object does not
  have, and \<open>onStorageUpdate\<close> does not call \<^verbatim>\<open>notifyReact\<close>.
\<close>

theorem onStorageUpdate_suppresses_proto_change:
  \<open>JSON_parse demo_platform ''{"__proto__":{}}'' = Inr (JObject 5 [(''__proto__'', JObject 6 [])])
   \<and> JSON_parse demo_platform ''{"a":1}'' = Inr (JObject 4 [(''a'', JNumber (Finite 1))])
   \<and> \<not> structurally_equal (JObject 5 [(''__proto__'', JObject 6 [])])
         (JObject 4 [(''a'', JNumber (Finite 1))])
   \<and> deepEqual (JObject 5 [(''__proto__'', JObject 6 [])]) (JObject 4 [(''a'', JNumber (Finite 1))])
   \<and> onStorageUpdate demo_platform demo_options
        \<lparr>event_storageArea = Some 0, event_key = Some ''target'',
         event_oldValue = Some ''{"__proto__":{}}'', event_newValue = Some ''{"a":1}''\<rparr>
        empty_world = (False, empty_world)\<close>
  by (simp add: demo_platform_def demo_options_def demo_parse_def deepEqual.simps(1)
        structurally_equal.simps(1) getProperty_def deepEqual_Object_prototype_def)

text \<open>
  Claim C3. An event for the watched key and the bound storage in which exactly one of
  the old and the new text is absent is forwarded, whatever the text that is present;
  nothing is decoded and nothing is reported.
\<close>

theorem onStorageUpdate_created_or_deleted:
  "event_storageArea event = Some (localStorage P) \<Longrightarrow> event_key event = Some (key opts) \<Longrightarrow>
   (event_oldValue event = None) \<noteq> (event_newValue event = None) \<Longrightarrow>
   onStorageUpdate P opts event w = (True, w)"
  by (auto split: option.splits)

theorem onStorageUpdate_created_or_deleted_witness:
  "onStorageUpdate demo_platform demo_options
     \<lparr>event_storageArea = Some 0, event_key = Some ''target'', event_oldValue = None,
      event_newValue = Some ''{bad json''\<rparr> empty_world = (True, empty_world)
   \<and> onStorageUpdate demo_platform demo_options
     \<lparr>event_storageArea = Some 0, event_key = Some ''target'', event_oldValue = Some ''5'',
      event_newValue = None\<rparr> empty_world = (True, empty_world)"
proof -
  have a: "onStorageUpdate demo_platform demo_options
     \<lparr>event_storageArea = Some 0, event_key = Some ''target'', event_oldValue = None,
      event_newValue = Some ''{bad json''\<rparr> empty_world = (True, empty_world)"
    by (rule onStorageUpdate_created_or_deleted)
      (simp_all add: demo_platform_def demo_options_def)
  have b: "onStorageUpdate demo_platform demo_options
     \<lparr>event_storageArea = Some 0, event_key = Some ''target'', event_oldValue = Some ''5'',
      event_newValue = None\<rparr> empty_world = (True, empty_world)"
    by (rule onStorageUpdate_created_or_deleted)
      (simp_all add: demo_platform_def demo_options_def)
  from a b show ?thesis by simp
qed

section \<open>Reading\<close>

text \<open>
  Claim C4. When the text stored under the watched key does not decode,
  \<open>readFromLocalStorage\<close> returns null and has passed the decoding error to
  \<^verbatim>\<open>onError\<close> once, and nothing else has changed; when the key is absent it returns null
  and reports nothing. The function returns in both cases: the exception of
  \<^verbatim>\<open>JSON.parse\<close> is caught at line 118.
\<close>

theorem readFromLocalStorage_malformed:
  "(entries w (key opts) = Some s \<longrightarrow> JSON_parse P s = Inl err \<longrightarrow>
      readFromLocalStorage P opts w = (JNull, w\<lparr>reported := reported w @ [err]\<rparr>))
   \<and> (entries w (key opts) = None \<longrightarrow> readFromLocalStorage P opts w = (JNull, w))"
  by (simp add: readFromLocalStorage_def getItem_def stableOnError_def)

theorem readFromLocalStorage_malformed_witness:
  "readFromLocalStorage demo_platform demo_options
       (empty_world\<lparr>entries := [''target'' \<mapsto> ''{bad json'']\<rparr>)
     = (JNull, \<lparr>entries = [''target'' \<mapsto> ''{bad json''], writes = [], reported = [SyntaxError]\<rparr>)
   \<and> readFromLocalStorage demo_platform demo_options empty_world = (JNull, empty_world)"
proof -
  have a: "readFromLocalStorage demo_platform demo_options
       (empty_world\<lparr>entries := [''target'' \<mapsto> ''{bad json'']\<rparr>)
     = (JNull, \<lparr>entries = [''target'' \<mapsto> ''{bad json''], writes = [], reported = [SyntaxError]\<rparr>)"
    using readFromLocalStorage_malformed
      [of "empty_world\<lparr>entries := [''target'' \<mapsto> ''{bad json'']\<rparr>" demo_options
          "''{bad json''" demo_platform SyntaxError]
    by (simp add: demo_platform_def demo_options_def demo_parse_def empty_world_def)
  have b: "readFromLocalStorage demo_platform demo_options empty_world = (JNull, empty_world)"
    using readFromLocalStorage_malformed [of empty_world demo_options _ demo_platform]
    by (simp add: empty_world_def)
  from a b show ?thesis by simp
qed

section \<open>The setter\<close>

text \<open>
  What the setter catches. An exception of a functional updater, a failure of the encoder
  and a failure of the storage's \<^verbatim>\<open>setItem\<close> are each caught inside
  \<open>setLocalStorageValue\<close>: the call returns, the error has been passed to \<^verbatim>\<open>onError\<close>
  once, and nothing has been written. When the storage's \<^verbatim>\<open>removeItem\<close> does not throw,
  \<open>setLocalStorageValue\<close> returns for every payload.
\<close>

lemma setLocalStorageValue_catches:
  "(\<forall>f err. payload = Updater f \<longrightarrow> f hv = Inl err \<longrightarrow>
      setLocalStorageValue P opts hv payload w = Inr (stableOnError err w))
   \<and> (\<forall>v err. (case payload of Updater f \<Rightarrow> f hv | Literal x \<Rightarrow> Inr x) = Inr v \<longrightarrow>
        \<not> (v = JNull \<and> removeNullValues opts) \<longrightarrow> JSON_stringify P v = Inl err \<longrightarrow>
        setLocalStorageValue P opts hv payload w = Inr (stableOnError err w))
   \<and> (\<forall>v s err. (case payload of Updater f \<Rightarrow> f hv | Literal x \<Rightarrow> Inr x) = Inr v \<longrightarrow>
        \<not> (v = JNull \<and> removeNullValues opts) \<longrightarrow> JSON_stringify P v = Inr s \<longrightarrow>
        setItem_throws P (entries w) (key opts) s = Some err \<longrightarrow>
        setLocalStorageValue P opts hv payload w = Inr (stableOnError err w))
   \<and> (removeItem_throws P (entries w) (key opts) = None \<longrightarrow>
        (\<exists>w'. setLocalStorageValue P opts hv payload w = Inr w'))"
  by (auto simp: setLocalStorageValue_def setItem_def removeItem_def
           split: payload.splits sum.splits option.splits)

text \<open>
  The four cases at concrete inputs: an updater that throws, an encoder that throws, a
  storage that is full, and the removal of the key on a storage that does not throw.
\<close>

lemma setLocalStorageValue_catches_examples:
  "setLocalStorageValue demo_platform demo_options JNull
       (Updater (\<lambda>cur. Inl (Thrown ''boom''))) empty_world
     = Inr (stableOnError (Thrown ''boom'') empty_world)
   \<and> setLocalStorageValue (demo_platform\<lparr>JSON_stringify := (\<lambda>v. Inl TypeError)\<rparr>)
        demo_options JNull (Literal (JNumber (Finite 5))) empty_world
     = Inr (stableOnError TypeError empty_world)
   \<and> setLocalStorageValue
        (demo_platform\<lparr>setItem_throws := (\<lambda>m k s. Some QuotaExceededError)\<rparr>)
        demo_options JNull (Literal (JNumber (Finite 5))) empty_world
     = Inr (stableOnError QuotaExceededError empty_world)
   \<and> (\<exists>w'. setLocalStorageValue demo_platform demo_options JNull (Literal JNull) empty_world
           = Inr w')"
proof -
  have a: "setLocalStorageValue demo_platform demo_options JNull
       (Updater (\<lambda>cur. Inl (Thrown ''boom''))) empty_world
     = Inr (stableOnError (Thrown ''boom'') empty_world)"
    using setLocalStorageValue_catches
      [of "Updater (\<lambda>cur. Inl (Thrown ''boom''))" JNull demo_platform demo_options empty_world]
    by simp
  have b: "setLocalStorageValue (demo_platform\<lparr>JSON_stringify := (\<lambda>v. Inl TypeError)\<rparr>)
        demo_options JNull (Literal (JNumber (Finite 5))) empty_world
     = Inr (stableOnError TypeError empty_world)"
    using setLocalStorageValue_catches
      [of "Literal (JNumber (Finite 5))" JNull
          "demo_platform\<lparr>JSON_stringify := (\<lambda>v. Inl TypeError)\<rparr>" demo_options empty_world]
    by simp
  have c: "setLocalStorageValue
        (demo_platform\<lparr>setItem_throws := (\<lambda>m k s. Some QuotaExceededError)\<rparr>)
        demo_options JNull (Literal (JNumber (Finite 5))) empty_world
     = Inr (stableOnError QuotaExceededError empty_world)"
    using setLocalStorageValue_catches
      [of "Literal (JNumber (Finite 5))" JNull
          "demo_platform\<lparr>setItem_throws := (\<lambda>m k s. Some QuotaExceededError)\<rparr>"
          demo_options empty_world]
    by (simp add: demo_platform_def demo_stringify_def)
  have d: "\<exists>w'. setLocalStorageValue demo_platform demo_options JNull (Literal JNull) empty_world
             = Inr w'"
    using setLocalStorageValue_catches
      [of "Literal JNull" JNull demo_platform demo_options empty_world]
    by (simp add: demo_platform_def)
  from a b c d show ?thesis by blast
qed

text \<open>
  The call to \<^verbatim>\<open>removeItem\<close> (line 149) is outside every \<^verbatim>\<open>try\<close>: when the new value is
  null, \<^verbatim>\<open>removeNullValues\<close> is on and the storage's \<^verbatim>\<open>removeItem\<close> throws, the setter
  throws that error to its caller and \<^verbatim>\<open>onError\<close> is not called.
\<close>

lemma setLocalStorageValue_remove_failure:
  "(case payload of Updater f \<Rightarrow> f hv | Literal x \<Rightarrow> Inr x) = Inr JNull \<Longrightarrow>
   removeNullValues opts \<Longrightarrow> removeItem_throws P (entries w) (key opts) = Some err \<Longrightarrow>
   setLocalStorageValue P opts hv payload w = Inl err"
  by (simp add: setLocalStorageValue_def removeItem_def)

text \<open>
  Claim C1 says that a call of the setter never throws to its caller, a failure of the
  storage's remove operation being caught and passed to \<^verbatim>\<open>onError\<close> as the failures of
  the encoder and of \<^verbatim>\<open>setItem\<close> are. The code does not do so: on a storage whose
  \<^verbatim>\<open>removeItem\<close> throws, setting null (with \<^verbatim>\<open>removeNullValues\<close> at its default) throws
  that error to the caller.
\<close>

theorem setLocalStorageValue_remove_failure_propagates:
  "setLocalStorageValue
     (demo_platform\<lparr>removeItem_throws := (\<lambda>m k. Some (Thrown ''remove failed''))\<rparr>)
     demo_options JNull (Literal JNull) empty_world = Inl (Thrown ''remove failed'')"
  by (simp add: setLocalStorageValue_def removeItem_def removeNullValues_def demo_options_def)

text \<open>
  A function payload is applied to the \<^verbatim>\<open>hookValue\<close> that the setter closes over, and the
  setter goes on with the result as with a literal payload; a value other than null that
  the encoder and the storage accept is written under the key.
\<close>

lemma setLocalStorageValue_Updater:
  "f hv = Inr v \<Longrightarrow>
   setLocalStorageValue P opts hv (Updater f) w = setLocalStorageValue P opts hv (Literal v) w"
  by (simp add: setLocalStorageValue_def)

lemma setLocalStorageValue_writes:
  "v \<noteq> JNull \<Longrightarrow> JSON_stringify P v = Inr s \<Longrightarrow>
   setItem_throws P (entries w) (key opts) s = None \<Longrightarrow>
   setLocalStorageValue P opts hv (Literal v) w
     = Inr (w\<lparr>entries := (entries w)(key opts \<mapsto> s), writes := writes w @ [SetItem (key opts) s]\<rparr>)"
  by (simp add: setLocalStorageValue_def setItem_def)

text \<open>
  Claim C8, as amended. A function payload is applied to the value that the hook returned
  at its latest evaluation, whatever the storage holds at the call: the decoded stored
  value when the storage then held a text that decodes to a value other than null, the
  fallback when the read then yielded null and a fallback is configured, and null when
  none is. The encoded result is stored.
\<close>

theorem functional_update:
  "(entries w0 (key opts) = Some s0 \<longrightarrow> JSON_parse P s0 = Inr v0 \<longrightarrow> v0 \<noteq> JNull \<longrightarrow>
      f v0 = Inr v \<longrightarrow> v \<noteq> JNull \<longrightarrow> JSON_stringify P v = Inr s \<longrightarrow>
      setItem_throws P (entries w) (key opts) s = None \<longrightarrow>
      setStorageValue P opts w0 (Updater f) w
        = Inr (w\<lparr>entries := (entries w)(key opts \<mapsto> s),
                 writes := writes w @ [SetItem (key opts) s]\<rparr>))
   \<and> (fst (readFromLocalStorage P opts w0) = JNull \<longrightarrow> fallbackValue opts = Some fb \<longrightarrow>
        f fb = Inr v \<longrightarrow> v \<noteq> JNull \<longrightarrow> JSON_stringify P v = Inr s \<longrightarrow>
        setItem_throws P (entries w) (key opts) s = None \<longrightarrow>
        setStorageValue P opts w0 (Updater f) w
          = Inr (w\<lparr>entries := (entries w)(key opts \<mapsto> s),
                   writes := writes w @ [SetItem (key opts) s]\<rparr>))
   \<and> (fst (readFromLocalStorage P opts w0) = JNull \<longrightarrow> fallbackValue opts = None \<longrightarrow>
        f JNull = Inr v \<longrightarrow> v \<noteq> JNull \<longrightarrow> JSON_stringify P v = Inr s \<longrightarrow>
        setItem_throws P (entries w) (key opts) s = None \<longrightarrow>
        setStorageValue P opts w0 (Updater f) w
          = Inr (w\<lparr>entries := (entries w)(key opts \<mapsto> s),
                   writes := writes w @ [SetItem (key opts) s]\<rparr>))"
proof (intro conjI impI)
  assume a: "entries w0 (key opts) = Some s0" "JSON_parse P s0 = Inr v0" "v0 \<noteq> JNull"
    "f v0 = Inr v" "v \<noteq> JNull" "JSON_stringify P v = Inr s"
    "setItem_throws P (entries w) (key opts) s = None"
  from a(1-3) have "fst (useLocalStorage P opts w0) = v0"
    by (simp add: useLocalStorage_def readFromLocalStorage_def getItem_def hookValue_def)
  with a(4-7) show "setStorageValue P opts w0 (Updater f) w
        = Inr (w\<lparr>entries := (entries w)(key opts \<mapsto> s),
                 writes := writes w @ [SetItem (key opts) s]\<rparr>)"
    by (simp add: setStorageValue_def setLocalStorageValue_def setItem_def)
next
  assume a: "fst (readFromLocalStorage P opts w0) = JNull" "fallbackValue opts = Some fb"
    "f fb = Inr v" "v \<noteq> JNull" "JSON_stringify P v = Inr s"
    "setItem_throws P (entries w) (key opts) s = None"
  from a(1,2) have "fst (useLocalStorage P opts w0) = fb"
    by (cases "readFromLocalStorage P opts w0") (simp add: useLocalStorage_def hookValue_def)
  with a(3-6) show "setStorageValue P opts w0 (Updater f) w
        = Inr (w\<lparr>entries := (entries w)(key opts \<mapsto> s),
                 writes := writes w @ [SetItem (key opts) s]\<rparr>)"
    by (simp add: setStorageValue_def setLocalStorageValue_def setItem_def)
next
  assume a: "fst (readFromLocalStorage P opts w0) = JNull" "fallbackValue opts = None"
    "f JNull = Inr v" "v \<noteq> JNull" "JSON_stringify P v = Inr s"
    "setItem_throws P (entries w) (key opts) s = None"
  from a(1,2) have "fst (useLocalStorage P opts w0) = JNull"
    by (cases "readFromLocalStorage P opts w0") (simp add: useLocalStorage_def hookValue_def)
  with a(3-6) show "setStorageValue P opts w0 (Updater f) w
        = Inr (w\<lparr>entries := (entries w)(key opts \<mapsto> s),
                 writes := writes w @ [SetItem (key opts) s]\<rparr>)"
    by (simp add: setStorageValue_def setLocalStorageValue_def setItem_def)
qed

text \<open>
  The three cases at concrete inputs: the stored number 5, the fallback 5 on an empty
  storage (the example of the specification: 6 is stored), and neither.
\<close>

theorem functional_update_witness:
  "setStorageValue demo_platform (demo_options\<lparr>fallbackValue := Some (JNumber (Finite 42))\<rparr>)
       (empty_world\<lparr>entries := [''target'' \<mapsto> ''5'']\<rparr>) (Updater increment)
       (empty_world\<lparr>entries := [''target'' \<mapsto> ''5'']\<rparr>)
     = Inr \<lparr>entries = [''target'' \<mapsto> ''6''], writes = [SetItem ''target'' ''6''], reported = []\<rparr>
   \<and> setStorageValue demo_platform (demo_options\<lparr>fallbackValue := Some (JNumber (Finite 5))\<rparr>)
       empty_world (Updater increment) empty_world
     = Inr \<lparr>entries = [''target'' \<mapsto> ''6''], writes = [SetItem ''target'' ''6''], reported = []\<rparr>
   \<and> setStorageValue demo_platform demo_options empty_world
       (Updater (\<lambda>cur. if cur = JNull then Inr (JNumber (Finite 7)) else Inr cur)) empty_world
     = Inr \<lparr>entries = [''target'' \<mapsto> ''7''], writes = [SetItem ''target'' ''7''], reported = []\<rparr>"
proof -
  let ?o42 = "demo_options\<lparr>fallbackValue := Some (JNumber (Finite 42))\<rparr>"
  let ?o5 = "demo_options\<lparr>fallbackValue := Some (JNumber (Finite 5))\<rparr>"
  let ?w5 = "empty_world\<lparr>entries := [''target'' \<mapsto> ''5'']\<rparr>"
  let ?g = "\<lambda>cur. if cur = JNull then Inr (JNumber (Finite 7)) else Inr cur"
  note stored = functional_update
    [of ?w5 ?o42 "''5''" demo_platform "JNumber (Finite 5)" increment "JNumber (Finite 6)" "''6''" ?w5,
     THEN conjunct1, rule_format]
  note fallback = functional_update
    [of empty_world ?o5 _ demo_platform _ increment "JNumber (Finite 6)" "''6''" empty_world
        "JNumber (Finite 5)", THEN conjunct2, THEN conjunct1, rule_format]
  note neither = functional_update
    [of empty_world demo_options _ demo_platform _ ?g "JNumber (Finite 7)" "''7''" empty_world,
     THEN conjunct2, THEN conjunct2, rule_format]
  have a: "setStorageValue demo_platform ?o42 ?w5 (Updater increment) ?w5
      = Inr (?w5\<lparr>entries := (entries ?w5)(key ?o42 \<mapsto> ''6''),
               writes := writes ?w5 @ [SetItem (key ?o42) ''6'']\<rparr>)"
    by (rule stored)
      (simp_all add: increment_def empty_world_def demo_options_def demo_platform_def
         demo_stringify_def demo_parse_def)
  have b: "setStorageValue demo_platform ?o5 empty_world (Updater increment) empty_world
      = Inr (empty_world\<lparr>entries := (entries empty_world)(key ?o5 \<mapsto> ''6''),
               writes := writes empty_world @ [SetItem (key ?o5) ''6'']\<rparr>)"
    by (rule fallback)
      (simp_all add: increment_def empty_world_def demo_options_def demo_platform_def
         demo_stringify_def readFromLocalStorage_def getItem_def)
  have c: "setStorageValue demo_platform demo_options empty_world (Updater ?g) empty_world
      = Inr (empty_world\<lparr>entries := (entries empty_world)(key demo_options \<mapsto> ''7''),
               writes := writes empty_world @ [SetItem (key demo_options) ''7'']\<rparr>)"
    by (rule neither)
      (simp_all add: empty_world_def demo_options_def demo_platform_def
         demo_stringify_def readFromLocalStorage_def getItem_def)
  from a b c show ?thesis by (simp add: empty_world_def demo_options_def)
qed

text \<open>
  Against claim C8 as stated: with the fallback 5 and an empty storage, the setter is
  called twice with \<^verbatim>\<open>cur => cur + 1\<close> and the hook is not evaluated in between. The first
  call stores 6. At the second call the current effective value is 6, so the claim has 7
  stored; the function is applied to the 5 of the latest evaluation, and 6 is stored
  again.
\<close>

theorem functional_update_stale_value:
  "setStorageValue demo_platform (demo_options\<lparr>fallbackValue := Some (JNumber (Finite 5))\<rparr>)
       empty_world (Updater increment) empty_world
     = Inr \<lparr>entries = [''target'' \<mapsto> ''6''], writes = [SetItem ''target'' ''6''], reported = []\<rparr>
   \<and> fst (useLocalStorage demo_platform (demo_options\<lparr>fallbackValue := Some (JNumber (Finite 5))\<rparr>)
          \<lparr>entries = [''target'' \<mapsto> ''6''], writes = [SetItem ''target'' ''6''], reported = []\<rparr>)
       = JNumber (Finite 6)
   \<and> increment (JNumber (Finite 6)) = Inr (JNumber (Finite 7))
   \<and> JSON_stringify demo_platform (JNumber (Finite 7)) = Inr ''7''
   \<and> setStorageValue demo_platform (demo_options\<lparr>fallbackValue := Some (JNumber (Finite 5))\<rparr>)
       empty_world (Updater increment)
       \<lparr>entries = [''target'' \<mapsto> ''6''], writes = [SetItem ''target'' ''6''], reported = []\<rparr>
     = Inr \<lparr>entries = [''target'' \<mapsto> ''6''],
            writes = [SetItem ''target'' ''6'', SetItem ''target'' ''6''], reported = []\<rparr>"
  by (simp add: setStorageValue_def setLocalStorageValue_def setItem_def useLocalStorage_def
        readFromLocalStorage_def getItem_def hookValue_def removeNullValues_def increment_def
        empty_world_def demo_options_def demo_platform_def demo_parse_def demo_stringify_def)

section \<open>The exposed value\<close>

text \<open>
  Claim C7. When \<open>readFromLocalStorage\<close> yields null and a fallback is configured, the
  value the hook returns is the fallback. After the setter has been given null with
  \<^verbatim>\<open>removeNullValues\<close> on (and the storage has carried out the removal), the key has no
  entry, and the next evaluation of the hook returns the fallback.
\<close>

theorem fallback_precedence:
  "(fst (readFromLocalStorage P opts w) = JNull \<longrightarrow> fallbackValue opts = Some fb \<longrightarrow>
      fst (useLocalStorage P opts w) = fb)
   \<and> (removeNullValues opts \<longrightarrow> removeItem_throws P (entries w) (key opts) = None \<longrightarrow>
        fallbackValue opts = Some fb \<longrightarrow>
        (\<exists>w'. setLocalStorageValue P opts hv (Literal JNull) w = Inr w' \<and>
              entries w' (key opts) = None \<and>
              useLocalStorage P opts w' = (fb, w')))"
  by (auto simp: useLocalStorage_def hookValue_def setLocalStorageValue_def removeItem_def
        readFromLocalStorage_def getItem_def split: prod.splits)

theorem fallback_precedence_witness:
  "fst (useLocalStorage demo_platform (demo_options\<lparr>fallbackValue := Some (JNumber (Finite 42))\<rparr>)
          empty_world) = JNumber (Finite 42)
   \<and> fst (useLocalStorage demo_platform (demo_options\<lparr>fallbackValue := Some (JNumber (Finite 42))\<rparr>)
          (empty_world\<lparr>entries := [''target'' \<mapsto> ''{bad json'']\<rparr>)) = JNumber (Finite 42)
   \<and> fst (useLocalStorage demo_platform (demo_options\<lparr>fallbackValue := Some (JNumber (Finite 42))\<rparr>)
          (empty_world\<lparr>entries := [''target'' \<mapsto> ''5'']\<rparr>)) = JNumber (Finite 5)
   \<and> (\<exists>w'. setLocalStorageValue demo_platform
              (demo_options\<lparr>fallbackValue := Some (JNumber (Finite 42))\<rparr>) (JNumber (Finite 5))
              (Literal JNull) (empty_world\<lparr>entries := [''target'' \<mapsto> ''5'']\<rparr>) = Inr w' \<and>
            entries w' ''target'' = None \<and>
            useLocalStorage demo_platform (demo_options\<lparr>fallbackValue := Some (JNumber (Finite 42))\<rparr>) w'
              = (JNumber (Finite 42), w'))"
proof -
  let ?opts = "demo_options\<lparr>fallbackValue := Some (JNumber (Finite 42))\<rparr>"
  let ?w5 = "empty_world\<lparr>entries := [''target'' \<mapsto> ''5'']\<rparr>"
  let ?wbad = "empty_world\<lparr>entries := [''target'' \<mapsto> ''{bad json'']\<rparr>"
  have a: "fst (useLocalStorage demo_platform ?opts empty_world) = JNumber (Finite 42)"
    using fallback_precedence [of demo_platform ?opts empty_world "JNumber (Finite 42)"]
    by (simp add: readFromLocalStorage_def getItem_def empty_world_def demo_options_def)
  have b: "fst (useLocalStorage demo_platform ?opts ?wbad) = JNumber (Finite 42)"
    using fallback_precedence [of demo_platform ?opts ?wbad "JNumber (Finite 42)"]
    by (simp add: readFromLocalStorage_def getItem_def empty_world_def demo_options_def
          demo_platform_def demo_parse_def)
  have c: "fst (useLocalStorage demo_platform ?opts ?w5) = JNumber (Finite 5)"
    by (simp add: useLocalStorage_def readFromLocalStorage_def getItem_def empty_world_def
          demo_options_def demo_platform_def demo_parse_def hookValue_def)
  have d: "\<exists>w'. setLocalStorageValue demo_platform ?opts (JNumber (Finite 5)) (Literal JNull) ?w5 = Inr w' \<and>
            entries w' ''target'' = None \<and>
            useLocalStorage demo_platform ?opts w' = (JNumber (Finite 42), w')"
    using fallback_precedence [of demo_platform ?opts ?w5 "JNumber (Finite 42)" "JNumber (Finite 5)"]
    by (simp add: removeNullValues_def demo_options_def demo_platform_def)
  from a b c d show ?thesis by blast
qed

text \<open>
  Claim C9. With \<^verbatim>\<open>removeNullValues\<close> off, the setter given null stores the encoding of
  null, the text \<^verbatim>\<open>null\<close>, under the key. Reading decodes it to null, so the hook returns
  what it returns when the key has no entry: the fallback, when one is configured.
\<close>

theorem stored_null_reads_as_absent:
  "\<not> removeNullValues opts \<longrightarrow> JSON_stringify P JNull = Inr ''null'' \<longrightarrow>
   JSON_parse P ''null'' = Inr JNull \<longrightarrow> setItem_throws P (entries w) (key opts) ''null'' = None \<longrightarrow>
   (\<exists>w'. setLocalStorageValue P opts hv (Literal JNull) w = Inr w' \<and>
         entries w' (key opts) = Some ''null'' \<and>
         readFromLocalStorage P opts w' = (JNull, w') \<and>
         fst (useLocalStorage P opts w')
           = fst (useLocalStorage P opts (w'\<lparr>entries := (entries w')(key opts := None)\<rparr>)) \<and>
         (\<forall>fb. fallbackValue opts = Some fb \<longrightarrow> fst (useLocalStorage P opts w') = fb))"
  by (auto simp: useLocalStorage_def hookValue_def setLocalStorageValue_def setItem_def
        readFromLocalStorage_def getItem_def)

theorem stored_null_reads_as_absent_witness:
  "\<exists>w'. setLocalStorageValue demo_platform
          (demo_options\<lparr>fallbackValue := Some (JNumber (Finite 42)), removeNullValues_option := Some False\<rparr>)
          (JNumber (Finite 42)) (Literal JNull) empty_world = Inr w' \<and>
        entries w' ''target'' = Some ''null'' \<and>
        fst (useLocalStorage demo_platform
          (demo_options\<lparr>fallbackValue := Some (JNumber (Finite 42)), removeNullValues_option := Some False\<rparr>) w')
          = JNumber (Finite 42)"
  using stored_null_reads_as_absent
    [of "demo_options\<lparr>fallbackValue := Some (JNumber (Finite 42)), removeNullValues_option := Some False\<rparr>"
        demo_platform empty_world "JNumber (Finite 42)"]
  by (auto simp: removeNullValues_def demo_options_def demo_platform_def demo_stringify_def demo_parse_def)

section \<open>The effect on mount\<close>

text \<open>An evaluation of the hook's body writes nothing to the storage.\<close>

lemma readFromLocalStorage_frame:
  "entries (snd (readFromLocalStorage P opts w)) = entries w \<and>
   writes (snd (readFromLocalStorage P opts w)) = writes w"
  by (simp add: readFromLocalStorage_def getItem_def stableOnError_def split: option.splits sum.splits)

lemma useLocalStorage_frame:
  "entries (snd (useLocalStorage P opts w)) = entries w \<and>
   writes (snd (useLocalStorage P opts w)) = writes w"
  using readFromLocalStorage_frame [of P opts w]
  by (cases "readFromLocalStorage P opts w") (simp add: useLocalStorage_def)

lemma rerenders_frame:
  "entries (rerenders P optss w) = entries w \<and> writes (rerenders P optss w) = writes w"
  by (induction optss arbitrary: w) (simp_all add: useLocalStorage_frame)

text \<open>
  Claim C6, as amended. When \<^verbatim>\<open>syncFallbackOnMount\<close> is on, a fallback is configured and
  the first read yields null (the key is absent, or its text decodes to null or does not
  decode), mounting writes the encoded fallback under the key, once, provided the encoder
  and the storage's \<^verbatim>\<open>setItem\<close> do not throw; no later evaluation of the hook writes,
  whatever its options, a changed fallback among them. When the first read yields a value
  other than null, mounting writes nothing, and neither does any later evaluation.
\<close>

theorem mount_sync_once:
  "(syncFallbackOnMount opts \<longrightarrow> fallbackValue opts = Some fb \<longrightarrow>
      fst (readFromLocalStorage P opts w) = JNull \<longrightarrow> JSON_stringify P fb = Inr s \<longrightarrow>
      setItem_throws P (entries w) (key opts) s = None \<longrightarrow>
      (\<exists>w'. mount P opts w = Inr (fb, w') \<and>
            entries w' = (entries w)(key opts \<mapsto> s) \<and>
            writes w' = writes w @ [SetItem (key opts) s] \<and>
            (\<forall>optss. entries (rerenders P optss w') = entries w' \<and>
                     writes (rerenders P optss w') = writes w')))
   \<and> (fst (readFromLocalStorage P opts w) \<noteq> JNull \<longrightarrow>
        (\<exists>v w'. mount P opts w = Inr (v, w') \<and> entries w' = entries w \<and> writes w' = writes w \<and>
            (\<forall>optss. entries (rerenders P optss w') = entries w \<and>
                     writes (rerenders P optss w') = writes w)))"
proof (intro conjI impI)
  assume a: "syncFallbackOnMount opts" "fallbackValue opts = Some fb"
    "fst (readFromLocalStorage P opts w) = JNull" "JSON_stringify P fb = Inr s"
    "setItem_throws P (entries w) (key opts) s = None"
  obtain sv w1 where r: "readFromLocalStorage P opts w = (sv, w1)" by (cases "readFromLocalStorage P opts w")
  with a have sv: "sv = JNull" by simp
  from r readFromLocalStorage_frame [of P opts w]
  have fr: "entries w1 = entries w" "writes w1 = writes w" by simp_all
  let ?w' = "w1\<lparr>entries := (entries w1)(key opts \<mapsto> s), writes := writes w1 @ [SetItem (key opts) s]\<rparr>"
  from a r sv fr have "mount P opts w = Inr (fb, ?w')"
    by (simp add: mount_def mountEffect_def setItem_def hookValue_def)
  moreover from fr have "entries ?w' = (entries w)(key opts \<mapsto> s)"
    "writes ?w' = writes w @ [SetItem (key opts) s]" by simp_all
  ultimately show "\<exists>w'. mount P opts w = Inr (fb, w') \<and>
            entries w' = (entries w)(key opts \<mapsto> s) \<and>
            writes w' = writes w @ [SetItem (key opts) s] \<and>
            (\<forall>optss. entries (rerenders P optss w') = entries w' \<and>
                     writes (rerenders P optss w') = writes w')"
    using rerenders_frame by blast
next
  assume a: "fst (readFromLocalStorage P opts w) \<noteq> JNull"
  obtain sv w1 where r: "readFromLocalStorage P opts w = (sv, w1)" by (cases "readFromLocalStorage P opts w")
  with a have sv: "sv \<noteq> JNull" by simp
  from r readFromLocalStorage_frame [of P opts w]
  have fr: "entries w1 = entries w" "writes w1 = writes w" by simp_all
  from r sv have "mount P opts w = Inr (hookValue opts sv, w1)"
    by (simp add: mount_def mountEffect_def)
  with fr show "\<exists>v w'. mount P opts w = Inr (v, w') \<and> entries w' = entries w \<and> writes w' = writes w \<and>
            (\<forall>optss. entries (rerenders P optss w') = entries w \<and>
                     writes (rerenders P optss w') = writes w)"
    using rerenders_frame by metis
qed

theorem mount_sync_once_witness:
  \<open>(\<exists>w'. mount demo_platform
          (demo_options\<lparr>fallbackValue := Some (JObject 0 [(''n'', JNumber (Finite 0))]),
                         syncFallbackOnMount_option := Some True\<rparr>) empty_world
          = Inr (JObject 0 [(''n'', JNumber (Finite 0))], w') \<and>
        entries w' = [''target'' \<mapsto> ''{"n":0}''] \<and>
        writes w' = [SetItem ''target'' ''{"n":0}''] \<and>
        entries (rerenders demo_platform
                   [demo_options\<lparr>fallbackValue := Some (JNumber (Finite 5)),
                                  syncFallbackOnMount_option := Some True\<rparr>] w') = entries w' \<and>
        writes (rerenders demo_platform
                   [demo_options\<lparr>fallbackValue := Some (JNumber (Finite 5)),
                                  syncFallbackOnMount_option := Some True\<rparr>] w') = writes w')
   \<and> (\<exists>v w'. mount demo_platform
          (demo_options\<lparr>fallbackValue := Some (JObject 0 [(''n'', JNumber (Finite 0))]),
                         syncFallbackOnMount_option := Some True\<rparr>)
          (empty_world\<lparr>entries := [''target'' \<mapsto> ''5'']\<rparr>) = Inr (v, w') \<and>
        entries w' = [''target'' \<mapsto> ''5''] \<and> writes w' = [])\<close>
proof -
  let ?fb = "JObject 0 [(''n'', JNumber (Finite 0))]"
  let ?opts = "demo_options\<lparr>fallbackValue := Some ?fb, syncFallbackOnMount_option := Some True\<rparr>"
  let ?w5 = "empty_world\<lparr>entries := [''target'' \<mapsto> ''5'']\<rparr>"
  note sync = mount_sync_once
    [of ?opts ?fb demo_platform empty_world \<open>''{"n":0}''\<close>, THEN conjunct1, rule_format]
  note keep = mount_sync_once [of ?opts ?fb demo_platform ?w5, THEN conjunct2, rule_format]
  have a: \<open>\<exists>w'. mount demo_platform ?opts empty_world = Inr (?fb, w') \<and>
      entries w' = (entries empty_world)(key ?opts \<mapsto> ''{"n":0}'') \<and>
      writes w' = writes empty_world @ [SetItem (key ?opts) ''{"n":0}''] \<and>
      (\<forall>optss. entries (rerenders demo_platform optss w') = entries w' \<and>
               writes (rerenders demo_platform optss w') = writes w')\<close>
    by (rule sync)
      (simp_all add: syncFallbackOnMount_def readFromLocalStorage_def getItem_def
         empty_world_def demo_options_def demo_platform_def demo_stringify_def)
  have b: "\<exists>v w'. mount demo_platform ?opts ?w5 = Inr (v, w') \<and>
      entries w' = entries ?w5 \<and> writes w' = writes ?w5 \<and>
      (\<forall>optss. entries (rerenders demo_platform optss w') = entries ?w5 \<and>
               writes (rerenders demo_platform optss w') = writes ?w5)"
    by (rule keep)
      (simp add: readFromLocalStorage_def getItem_def empty_world_def demo_options_def
         demo_platform_def demo_parse_def)
  from a obtain w' where w': \<open>mount demo_platform ?opts empty_world = Inr (?fb, w')\<close>
      \<open>entries w' = [''target'' \<mapsto> ''{"n":0}'']\<close>
      \<open>writes w' = [SetItem ''target'' ''{"n":0}'']\<close>
      "\<forall>optss. entries (rerenders demo_platform optss w') = entries w' \<and>
               writes (rerenders demo_platform optss w') = writes w'"
    by (auto simp: empty_world_def demo_options_def)
  from b obtain v w'' where w'': "mount demo_platform ?opts ?w5 = Inr (v, w'')"
      "entries w'' = [''target'' \<mapsto> ''5'']" "writes w'' = []"
    by (auto simp: empty_world_def)
  from w' w'' show ?thesis by blast
qed

text \<open>
  Against claim C6 as stated: the key holds the text \<^verbatim>\<open>null\<close>, or a text that does not
  decode, and mounting replaces it by the encoded fallback.
\<close>

theorem mount_overwrites_null_and_malformed:
  \<open>entries (empty_world\<lparr>entries := [''target'' \<mapsto> ''null'']\<rparr>) ''target'' = Some ''null''
   \<and> mount demo_platform
       (demo_options\<lparr>fallbackValue := Some (JObject 0 [(''n'', JNumber (Finite 0))]),
                      syncFallbackOnMount_option := Some True\<rparr>)
       (empty_world\<lparr>entries := [''target'' \<mapsto> ''null'']\<rparr>)
     = Inr (JObject 0 [(''n'', JNumber (Finite 0))],
            \<lparr>entries = [''target'' \<mapsto> ''{"n":0}''], writes = [SetItem ''target'' ''{"n":0}''],
             reported = []\<rparr>)
   \<and> entries (empty_world\<lparr>entries := [''target'' \<mapsto> ''{bad json'']\<rparr>) ''target''
       = Some ''{bad json''
   \<and> mount demo_platform
       (demo_options\<lparr>fallbackValue := Some (JObject 0 [(''n'', JNumber (Finite 0))]),
                      syncFallbackOnMount_option := Some True\<rparr>)
       (empty_world\<lparr>entries := [''target'' \<mapsto> ''{bad json'']\<rparr>)
     = Inr (JObject 0 [(''n'', JNumber (Finite 0))],
            \<lparr>entries = [''target'' \<mapsto> ''{"n":0}''], writes = [SetItem ''target'' ''{"n":0}''],
             reported = [SyntaxError]\<rparr>)\<close>
  by (simp add: mount_def mountEffect_def readFromLocalStorage_def getItem_def setItem_def
        stableOnError_def hookValue_def syncFallbackOnMount_def empty_world_def demo_options_def
        demo_platform_def demo_parse_def demo_stringify_def)

end
